theory Spec2Isabelle
  imports Main
begin

section \<open>Data model of \<open>auth.service.ts\<close>\<close>

text \<open>
  Modelled from the spec: the enumeration \<open>AuthStatus\<close> is imported by the service from
  \<open>../interfaces\<close>; its three values are the ones the spec lists.
\<close>

datatype AuthStatus = "checking" | authenticated | notAuthenticated

text \<open>
  Modelled from the spec: \<open>LoginResponse\<close> and \<open>CheckTokenResponse\<close> are imported from
  \<open>../interfaces\<close>; both are the object \<open>{user: User, token: string}\<close>, and the service
  destructures exactly these two fields. \<open>User\<close> is opaque to the service: it is the type
  parameter \<open>'u\<close>.
\<close>

record 'u LoginResponse =
  user :: 'u
  token :: string

text \<open>
  The value \<open>err\<close> that reaches \<open>catchError\<close>. The service reads \<open>err.error.message\<close> and
  nothing else, so the model keeps the payload \<open>err.error\<close>: either \<open>null\<close>/\<open>undefined\<close>
  (\<open>Nullish\<close>), or an object, with its \<open>message\<close> when it has one.
\<close>

datatype error_payload = Nullish | Payload "string option"

record HttpErrorResponse =
  error :: error_payload

text \<open>
  The value an observable fails with: the server's message string, JavaScript's
  \<open>undefined\<close>, or the \<open>TypeError\<close> of a property read on \<open>null\<close>/\<open>undefined\<close>.
\<close>

datatype thrown = is_Message: Message string | Undefined | TypeError

text \<open>
  A request handed to \<open>HttpClient\<close>: \<open>post(url, body)\<close> with the JSON body as its list of
  fields, \<open>get(url, {headers})\<close> with the header list.
\<close>

datatype http_request =
    POST string "(string \<times> string) list"
  | GET string "(string \<times> string) list"

type_synonym 'u http_result = "HttpErrorResponse + 'u LoginResponse"

text \<open>The remote service: what it answers to each request (\<open>Inl\<close> is a failed request).\<close>

type_synonym 'u backend = "http_request \<Rightarrow> 'u http_result"

text \<open>
  The mutable state the service works on: its two signals \<open>_currentUser\<close> (initially
  \<open>null\<close>) and \<open>_authStatus\<close> (initially \<open>checking\<close>), and the browser's \<open>localStorage\<close>,
  a store of strings under string keys. Storage operations are taken not to throw.
\<close>

record 'u world =
  currentUser :: "'u option"
  authStatus :: AuthStatus
  localStorage :: "string \<rightharpoonup> string"

definition getItem :: "string \<Rightarrow> (string \<rightharpoonup> string) \<Rightarrow> string option" where
  "getItem k ls = ls k"

definition setItem :: "string \<Rightarrow> string \<Rightarrow> (string \<rightharpoonup> string) \<Rightarrow> (string \<rightharpoonup> string)" where
  "setItem k v ls = ls(k \<mapsto> v)"

definition removeItem :: "string \<Rightarrow> (string \<rightharpoonup> string) \<Rightarrow> (string \<rightharpoonup> string)" where
  "removeItem k ls = ls(k := None)"

text \<open>
  The notification a subscriber of an observable of booleans built here receives:
  one boolean (\<open>Inr\<close>) or an error (\<open>Inl\<close>).
\<close>

type_synonym notification = "thrown + bool"

text \<open>
  The observables the service returns are cold. \<open>of(b)\<close> emits \<open>b\<close> without any request.
  \<open>http.post(..).pipe(..)\<close> and \<open>http.get(..).pipe(..)\<close> send their request when subscribed
  and run the operators of the pipe, on the state of that moment, when the answer arrives.
\<close>

type_synonym 'u pipe = "'u http_result \<Rightarrow> 'u world \<Rightarrow> notification \<times> 'u world"

datatype 'u observable = Of bool | HttpPipe http_request "'u pipe"

fun subscribe :: "'u backend \<Rightarrow> 'u observable \<Rightarrow> 'u world \<Rightarrow> notification \<times> 'u world" where
  "subscribe http (Of b) w = (Inr b, w)"
| "subscribe http (HttpPipe req k) w = k (http req) w"

section \<open>The service\<close>

text \<open>The field initialisers of the class (lines 26-27), over a given browser storage.\<close>

definition init :: "(string \<rightharpoonup> string) \<Rightarrow> 'u world" where
  "init ls = \<lparr>currentUser = None, authStatus = checking, localStorage = ls\<rparr>"

text \<open>\<open>setAuthentication(user, token)\<close>: three assignments in the source's order, then \<open>true\<close>.\<close>

definition setAuthentication :: "'u \<Rightarrow> string \<Rightarrow> 'u world \<Rightarrow> bool \<times> 'u world" where
  "setAuthentication u t w =
     (let w1 = w\<lparr>currentUser := Some u\<rparr>;
          w2 = w1\<lparr>authStatus := authenticated\<rparr>;
          w3 = w2\<lparr>localStorage := setItem ''token'' t (localStorage w2)\<rparr>
      in (True, w3))"

text \<open>
  The expression \<open>err.error.message\<close>, evaluated by the factory given to \<open>throwError\<close>:
  reading \<open>message\<close> of a \<open>null\<close>/\<open>undefined\<close> payload raises a \<open>TypeError\<close>, which the
  observable then fails with; a payload without \<open>message\<close> gives \<open>undefined\<close>.
\<close>

fun error_message :: "HttpErrorResponse \<Rightarrow> thrown" where
  "error_message err =
     (case error err of
        Nullish \<Rightarrow> TypeError
      | Payload None \<Rightarrow> Undefined
      | Payload (Some m) \<Rightarrow> Message m)"

text \<open>The pipe of \<open>login\<close>: \<open>map\<close> on a response, \<open>catchError\<close> on a failure.\<close>

definition login_pipe :: "'u pipe" where
  "login_pipe r w =
     (case r of
        Inr resp \<Rightarrow> (case setAuthentication (user resp) (token resp) w of (b, w') \<Rightarrow> (Inr b, w'))
      | Inl err \<Rightarrow> (Inl (error_message err), w))"

text \<open>\<open>login(email, password)\<close>; \<open>baseUrl\<close> is \<open>environment.baseUrl\<close>, a parameter here.\<close>

definition login :: "string \<Rightarrow> string \<Rightarrow> string \<Rightarrow> 'u observable" where
  "login baseUrl email password =
     (let url = baseUrl @ ''/auth/login'';
          body = [(''email'', email), (''password'', password)]
      in HttpPipe (POST url body) login_pipe)"

text \<open>\<open>logout()\<close>: remove the token, clear the user, set the status.\<close>

definition logout :: "'u world \<Rightarrow> 'u world" where
  "logout w =
     (let w1 = w\<lparr>localStorage := removeItem ''token'' (localStorage w)\<rparr>;
          w2 = w1\<lparr>currentUser := None\<rparr>
      in w2\<lparr>authStatus := notAuthenticated\<rparr>)"

text \<open>
  JavaScript's \<open>!token\<close> on the result of \<open>getItem\<close>: true for \<open>null\<close> and for the empty
  string, false for every other string.
\<close>

fun falsy :: "string option \<Rightarrow> bool" where
  "falsy None = True"
| "falsy (Some t) = (t = [])"

text \<open>The pipe of \<open>checkAuthStatus\<close>: the \<open>catchError\<close> handler ignores the error.\<close>

definition check_pipe :: "'u pipe" where
  "check_pipe r w =
     (case r of
        Inr resp \<Rightarrow> (case setAuthentication (user resp) (token resp) w of (b, w') \<Rightarrow> (Inr b, w'))
      | Inl err \<Rightarrow> (Inr False, w\<lparr>authStatus := notAuthenticated\<rparr>))"

text \<open>
  \<open>checkAuthStatus()\<close>: the token is read and, when it is missing, \<open>logout()\<close> runs
  at the call itself; otherwise the state is untouched until the answer arrives.
\<close>

definition checkAuthStatus :: "string \<Rightarrow> 'u world \<Rightarrow> 'u observable \<times> 'u world" where
  "checkAuthStatus baseUrl w =
     (let url = baseUrl @ ''/auth/check-token'';
          tok = getItem ''token'' (localStorage w)
      in if falsy tok then (Of False, logout w)
         else (let headers = [(''Authorization'', ''Bearer '' @ the tok)]
               in (HttpPipe (GET url headers) check_pipe, w)))"

text \<open>
  The constructor: the field initialisers, then \<open>this.checkAuthStatus().subscribe()\<close>.
  The answer to the request is not awaited: the constructor returns the state the
  call of \<open>checkAuthStatus\<close> left, with the request (if any) in flight.
\<close>

definition constructor :: "string \<Rightarrow> (string \<rightharpoonup> string) \<Rightarrow> 'u observable \<times> 'u world" where
  "constructor baseUrl ls = checkAuthStatus baseUrl (init ls)"

subsection \<open>Operations run to completion\<close>

text \<open>
  A call whose observable is subscribed at once and whose answer arrives before anything
  else touches the state.
\<close>

definition run_login ::
  "'u backend \<Rightarrow> string \<Rightarrow> string \<Rightarrow> string \<Rightarrow> 'u world \<Rightarrow> notification \<times> 'u world" where
  "run_login http baseUrl email password w = subscribe http (login baseUrl email password) w"

definition run_checkAuthStatus :: "'u backend \<Rightarrow> string \<Rightarrow> 'u world \<Rightarrow> notification \<times> 'u world" where
  "run_checkAuthStatus http baseUrl w =
     (case checkAuthStatus baseUrl w of (obs, w') \<Rightarrow> subscribe http obs w')"

datatype operation = Login string string | CheckAuthStatus | Logout

fun complete :: "'u backend \<Rightarrow> string \<Rightarrow> operation \<Rightarrow> 'u world \<Rightarrow> 'u world" where
  "complete http baseUrl (Login email password) w = snd (run_login http baseUrl email password w)"
| "complete http baseUrl CheckAuthStatus w = snd (run_checkAuthStatus http baseUrl w)"
| "complete http baseUrl Logout w = logout w"

text \<open>The spec's invariant on a state.\<close>

definition invariant :: "'u world \<Rightarrow> bool" where
  "invariant w = ((currentUser w \<noteq> None) = (authStatus w = authenticated))"

subsection \<open>Stub services for the concrete runs\<close>

definition stub_ok :: "'u \<Rightarrow> string \<Rightarrow> 'u backend" where
  "stub_ok u t req = Inr \<lparr>user = u, token = t\<rparr>"

definition stub_fail :: "error_payload \<Rightarrow> 'u backend" where
  "stub_fail p req = Inl \<lparr>error = p\<rparr>"

text \<open>
  Whether an observable's request is answered with an error when subscribed against a
  given remote service (\<open>of(b)\<close> sends no request), and whether an operation's request,
  if it sends one, is.
\<close>

definition request_fails :: "'u backend \<Rightarrow> 'u observable \<Rightarrow> bool" where
  "request_fails http obs = (case obs of Of b \<Rightarrow> False | HttpPipe req k \<Rightarrow> isl (http req))"

fun failed :: "'u backend \<Rightarrow> string \<Rightarrow> operation \<Rightarrow> 'u world \<Rightarrow> bool" where
  "failed http baseUrl (Login email password) w = request_fails http (login baseUrl email password)"
| "failed http baseUrl CheckAuthStatus w = request_fails http (fst (checkAuthStatus baseUrl w))"
| "failed http baseUrl Logout w = False"

section \<open>What each operation computes\<close>

lemma setAuthentication_eq:
  "setAuthentication u t w =
     (True, w\<lparr>currentUser := Some u, authStatus := authenticated,
                localStorage := (localStorage w)(''token'' \<mapsto> t)\<rparr>)"
  by (simp add: setAuthentication_def setItem_def)

lemma logout_eq:
  "logout w = w\<lparr>localStorage := (localStorage w)(''token'' := None), currentUser := None,
                 authStatus := notAuthenticated\<rparr>"
  by (simp add: logout_def removeItem_def)

lemma run_login_ok:
  "http (POST (baseUrl @ ''/auth/login'') [(''email'', email), (''password'', password)]) = Inr resp
   \<Longrightarrow> run_login http baseUrl email password w
         = (Inr True, snd (setAuthentication (user resp) (token resp) w))"
  by (simp add: run_login_def login_def login_pipe_def setAuthentication_eq)

lemma run_login_err:
  "http (POST (baseUrl @ ''/auth/login'') [(''email'', email), (''password'', password)]) = Inl err
   \<Longrightarrow> run_login http baseUrl email password w = (Inl (error_message err), w)"
  by (simp add: run_login_def login_def login_pipe_def)

lemma checkAuthStatus_falsy:
  "falsy (getItem ''token'' (localStorage w)) \<Longrightarrow> checkAuthStatus baseUrl w = (Of False, logout w)"
  by (simp add: checkAuthStatus_def)

lemma checkAuthStatus_token:
  "getItem ''token'' (localStorage w) = Some t \<Longrightarrow> t \<noteq> [] \<Longrightarrow>
   checkAuthStatus baseUrl w =
     (HttpPipe (GET (baseUrl @ ''/auth/check-token'') [(''Authorization'', ''Bearer '' @ t)]) check_pipe, w)"
  by (simp add: checkAuthStatus_def)

text \<open>
  A stored empty string is falsy: the call treats it like a missing token, and no request
  is sent.
\<close>

lemma checkAuthStatus_empty_token:
  "getItem ''token'' (localStorage w) = Some [] \<Longrightarrow> checkAuthStatus baseUrl w = (Of False, logout w)"
  by (simp add: checkAuthStatus_def)

lemma checkAuthStatus_pipeD:
  assumes "checkAuthStatus baseUrl w = (HttpPipe req k, w1)"
  shows "k = check_pipe \<and> w1 = w \<and> \<not> falsy (getItem ''token'' (localStorage w))
         \<and> req = GET (baseUrl @ ''/auth/check-token'')
                   [(''Authorization'', ''Bearer '' @ the (getItem ''token'' (localStorage w)))]"
  using assms by (auto simp add: checkAuthStatus_def Let_def split: if_splits)

lemma run_login_state:
  "snd (run_login http baseUrl email password w) =
     (case http (POST (baseUrl @ ''/auth/login'') [(''email'', email), (''password'', password)]) of
        Inr resp \<Rightarrow> snd (setAuthentication (user resp) (token resp) w)
      | Inl err \<Rightarrow> w)"
  by (simp add: run_login_def login_def login_pipe_def setAuthentication_eq split: sum.splits)

lemma failed_login:
  "request_fails http (login baseUrl email password) =
     isl (http (POST (baseUrl @ ''/auth/login'') [(''email'', email), (''password'', password)]))"
  by (simp add: request_fails_def login_def)

lemma run_checkAuthStatus_state:
  "snd (run_checkAuthStatus http baseUrl w) =
     (if falsy (getItem ''token'' (localStorage w)) then logout w
      else (case http (GET (baseUrl @ ''/auth/check-token'')
                        [(''Authorization'', ''Bearer '' @ the (getItem ''token'' (localStorage w)))]) of
              Inr resp \<Rightarrow> snd (setAuthentication (user resp) (token resp) w)
            | Inl err \<Rightarrow> w\<lparr>authStatus := notAuthenticated\<rparr>))"
  by (simp add: run_checkAuthStatus_def checkAuthStatus_def check_pipe_def setAuthentication_eq
           split: sum.splits)

lemma failed_check:
  "request_fails http (fst (checkAuthStatus baseUrl w)) =
     (\<not> falsy (getItem ''token'' (localStorage w)) \<and>
      isl (http (GET (baseUrl @ ''/auth/check-token'')
                  [(''Authorization'', ''Bearer '' @ the (getItem ''token'' (localStorage w)))])))"
  by (simp add: request_fails_def checkAuthStatus_def Let_def)

lemma invariant_setAuthentication: "invariant (snd (setAuthentication u t w))"
  by (simp add: setAuthentication_eq invariant_def)

lemma invariant_logout: "invariant (logout w)"
  by (simp add: logout_eq invariant_def)

section \<open>Login\<close>

text \<open>
  C2. A successful \<open>login(email, password)\<close>, one whose request the remote service answers
  with a \<open>(user, token)\<close> pair, sets \<open>currentUser\<close> to that user, sets \<open>authStatus\<close> to
  \<open>authenticated\<close>, stores that token under the key \<open>token\<close>, and resolves to \<open>true\<close>.
\<close>

theorem login_success:
  assumes "http (POST (baseUrl @ ''/auth/login'') [(''email'', email), (''password'', password)]) = Inr resp"
  shows "fst (run_login http baseUrl email password w) = Inr True
         \<and> currentUser (snd (run_login http baseUrl email password w)) = Some (user resp)
         \<and> authStatus (snd (run_login http baseUrl email password w)) = authenticated
         \<and> getItem ''token'' (localStorage (snd (run_login http baseUrl email password w)))
             = Some (token resp)"
  using assms run_login_ok [of http baseUrl email password resp w]
  by (simp add: setAuthentication_eq getItem_def)

text \<open>
  The spec's scenario: the stub answers \<open>{user: 1, token: "tok1"}\<close>, the storage is empty
  and the fields have their initial values.
\<close>

theorem login_success_witness:
  "stub_ok (1::nat) ''tok1'' (POST (''http://api'' @ ''/auth/login'')
        [(''email'', ''a@b.com''), (''password'', ''secret'')])
      = Inr \<lparr>user = 1, token = ''tok1''\<rparr>
   \<and> run_login (stub_ok (1::nat) ''tok1'') ''http://api'' ''a@b.com'' ''secret'' (init Map.empty)
      = (Inr True,
         \<lparr>currentUser = Some 1, authStatus = authenticated, localStorage = [''token'' \<mapsto> ''tok1'']\<rparr>)"
proof -
  have h: "stub_ok (1::nat) ''tok1'' (POST (''http://api'' @ ''/auth/login'')
        [(''email'', ''a@b.com''), (''password'', ''secret'')]) = Inr \<lparr>user = 1, token = ''tok1''\<rparr>"
    by (simp add: stub_ok_def)
  have "run_login (stub_ok (1::nat) ''tok1'') ''http://api'' ''a@b.com'' ''secret'' (init Map.empty)
      = (Inr True,
         \<lparr>currentUser = Some 1, authStatus = authenticated, localStorage = [''token'' \<mapsto> ''tok1'']\<rparr>)"
    by (simp add: run_login_def login_def login_pipe_def setAuthentication_eq stub_ok_def init_def)
  with h login_success [of "stub_ok (1::nat) ''tok1''" "''http://api''" "''a@b.com''" "''secret''"
      "\<lparr>user = 1, token = ''tok1''\<rparr>" "init Map.empty"]
  show ?thesis by simp
qed

text \<open>
  C3 as stated says that a failing login whose error payload provides no message fails
  with a generic message. The handler is \<open>throwError(() => err.error.message)\<close> and has no
  fallback: with a payload that is an object without \<open>message\<close> (a network failure, for
  one) the observable fails with \<open>undefined\<close>, which is not a message.
\<close>

theorem login_failure_counterexample:
  "run_login (stub_fail (Payload None)) ''http://api'' ''a@b.com'' ''secret''
       (init Map.empty :: nat world) = (Inl Undefined, init Map.empty)
   \<and> \<not> is_Message Undefined"
  by (simp add: run_login_def login_def login_pipe_def stub_fail_def)

text \<open>
  C3, amended. A failing login fails with an error, and the state (user, status, storage)
  is the one before the call. The error is the server's message string verbatim when the
  payload provides one; it is \<open>undefined\<close> when the payload is an object without a
  message, and the \<open>TypeError\<close> of the property read when the payload is \<open>null\<close> or
  \<open>undefined\<close>.
\<close>

theorem login_failure:
  assumes "http (POST (baseUrl @ ''/auth/login'') [(''email'', email), (''password'', password)]) = Inl err"
  shows "(\<exists>e. fst (run_login http baseUrl email password w) = Inl e)
         \<and> (\<forall>m. error err = Payload (Some m) \<longrightarrow>
               fst (run_login http baseUrl email password w) = Inl (Message m))
         \<and> (error err = Payload None \<longrightarrow>
               fst (run_login http baseUrl email password w) = Inl Undefined)
         \<and> (error err = Nullish \<longrightarrow>
               fst (run_login http baseUrl email password w) = Inl TypeError)
         \<and> snd (run_login http baseUrl email password w) = w"
  using assms run_login_err [of http baseUrl email password err w] by simp

theorem login_failure_witness:
  "stub_fail (Payload (Some ''Invalid credentials''))
       (POST (''http://api'' @ ''/auth/login'') [(''email'', ''a@b.com''), (''password'', ''wrong'')])
     = (Inl \<lparr>error = Payload (Some ''Invalid credentials'')\<rparr> :: nat http_result)
   \<and> run_login (stub_fail (Payload (Some ''Invalid credentials''))) ''http://api'' ''a@b.com'' ''wrong''
        \<lparr>currentUser = Some (1::nat), authStatus = authenticated, localStorage = [''token'' \<mapsto> ''tok1'']\<rparr>
     = (Inl (Message ''Invalid credentials''),
        \<lparr>currentUser = Some 1, authStatus = authenticated, localStorage = [''token'' \<mapsto> ''tok1'']\<rparr>)
   \<and> run_login (stub_fail (Payload None)) ''http://api'' ''a@b.com'' ''wrong''
        \<lparr>currentUser = Some (1::nat), authStatus = authenticated, localStorage = [''token'' \<mapsto> ''tok1'']\<rparr>
     = (Inl Undefined,
        \<lparr>currentUser = Some 1, authStatus = authenticated, localStorage = [''token'' \<mapsto> ''tok1'']\<rparr>)
   \<and> run_login (stub_fail Nullish) ''http://api'' ''a@b.com'' ''wrong''
        \<lparr>currentUser = Some (1::nat), authStatus = authenticated, localStorage = [''token'' \<mapsto> ''tok1'']\<rparr>
     = (Inl TypeError,
        \<lparr>currentUser = Some 1, authStatus = authenticated, localStorage = [''token'' \<mapsto> ''tok1'']\<rparr>)"
proof -
  let ?w = "\<lparr>currentUser = Some (1::nat), authStatus = authenticated,
              localStorage = [''token'' \<mapsto> ''tok1'']\<rparr>"
  let ?req = "POST (''http://api'' @ ''/auth/login'') [(''email'', ''a@b.com''), (''password'', ''wrong'')]"
  have h: "stub_fail p ?req = (Inl \<lparr>error = p\<rparr> :: nat http_result)" for p
    by (simp add: stub_fail_def)
  have m: "run_login (stub_fail (Payload (Some ''Invalid credentials''))) ''http://api'' ''a@b.com''
             ''wrong'' ?w = (Inl (Message ''Invalid credentials''), ?w)"
    using h [of "Payload (Some ''Invalid credentials'')"]
      login_failure [of "stub_fail (Payload (Some ''Invalid credentials''))" "''http://api''"
        "''a@b.com''" "''wrong''" "\<lparr>error = Payload (Some ''Invalid credentials'')\<rparr>" ?w]
    by (simp add: prod_eq_iff)
  have u: "run_login (stub_fail (Payload None)) ''http://api'' ''a@b.com'' ''wrong'' ?w
             = (Inl Undefined, ?w)"
    using h [of "Payload None"]
      login_failure [of "stub_fail (Payload None)" "''http://api''" "''a@b.com''" "''wrong''"
        "\<lparr>error = Payload None\<rparr>" ?w]
    by (simp add: prod_eq_iff)
  have t: "run_login (stub_fail Nullish) ''http://api'' ''a@b.com'' ''wrong'' ?w
             = (Inl TypeError, ?w)"
    using h [of Nullish]
      login_failure [of "stub_fail Nullish" "''http://api''" "''a@b.com''" "''wrong''"
        "\<lparr>error = Nullish\<rparr>" ?w]
    by (simp add: prod_eq_iff)
  from h [of "Payload (Some ''Invalid credentials'')"] m u t show ?thesis by simp
qed

text \<open>
  C10. \<open>login\<close> never resolves to \<open>false\<close>: whatever the remote service answers, its
  observable fails with an error or emits \<open>true\<close>. \<open>checkAuthStatus\<close> does resolve to
  \<open>false\<close>, for one on an empty storage.
\<close>

theorem login_never_false:
  "fst (run_login http baseUrl email password w) \<noteq> Inr False
   \<and> ((\<exists>e. fst (run_login http baseUrl email password w) = Inl e)
        \<or> fst (run_login http baseUrl email password w) = Inr True)
   \<and> fst (run_checkAuthStatus http baseUrl (init Map.empty)) = Inr False"
proof -
  let ?req = "POST (baseUrl @ ''/auth/login'') [(''email'', email), (''password'', password)]"
  have "fst (run_login http baseUrl email password w) = Inr True
        \<or> (\<exists>e. fst (run_login http baseUrl email password w) = Inl e)"
  proof (cases "http ?req")
    case (Inl err)
    then show ?thesis using run_login_err [of http baseUrl email password err w] by simp
  next
    case (Inr resp)
    then show ?thesis using run_login_ok [of http baseUrl email password resp w] by simp
  qed
  moreover have "fst (run_checkAuthStatus http baseUrl (init Map.empty)) = Inr False"
    by (simp add: run_checkAuthStatus_def checkAuthStatus_def getItem_def init_def)
  ultimately show ?thesis by auto
qed

theorem login_never_false_witness:
  "fst (run_login (stub_fail Nullish) ''http://api'' ''a@b.com'' ''secret'' (init Map.empty :: nat world))
     \<noteq> Inr False
   \<and> fst (run_login (stub_ok (1::nat) ''tok1'') ''http://api'' ''a@b.com'' ''secret'' (init Map.empty))
     \<noteq> Inr False"
  using login_never_false [of "stub_fail Nullish" "''http://api''" "''a@b.com''" "''secret''"
          "init Map.empty :: nat world"]
        login_never_false [of "stub_ok (1::nat) ''tok1''" "''http://api''" "''a@b.com''" "''secret''"
          "init Map.empty"]
  by simp

section \<open>Status check\<close>

text \<open>
  C4. A \<open>checkAuthStatus\<close> call that finds a token \<open>t\<close> in the store and whose
  verification request \<open>req\<close> is answered with an error, whatever the error, resolves to
  \<open>false\<close> and sets \<open>authStatus\<close> to \<open>notAuthenticated\<close>; \<open>currentUser\<close> and the stored
  token are the ones before the call. The request is the \<open>GET\<close> carrying \<open>t\<close> as bearer
  credential.
\<close>

theorem checkAuthStatus_verification_fails:
  assumes "getItem ''token'' (localStorage w) = Some t"
      and "checkAuthStatus baseUrl w = (HttpPipe req k, w1)"
      and "http req = Inl err"
  shows "run_checkAuthStatus http baseUrl w = (Inr False, w\<lparr>authStatus := notAuthenticated\<rparr>)
         \<and> req = GET (baseUrl @ ''/auth/check-token'') [(''Authorization'', ''Bearer '' @ t)]
         \<and> authStatus (snd (run_checkAuthStatus http baseUrl w)) = notAuthenticated
         \<and> currentUser (snd (run_checkAuthStatus http baseUrl w)) = currentUser w
         \<and> getItem ''token'' (localStorage (snd (run_checkAuthStatus http baseUrl w))) = Some t"
proof -
  from checkAuthStatus_pipeD [OF assms(2)] assms(1)
  have k: "k = check_pipe" and w1: "w1 = w"
    and req: "req = GET (baseUrl @ ''/auth/check-token'') [(''Authorization'', ''Bearer '' @ t)]"
    by simp_all
  have "run_checkAuthStatus http baseUrl w = (Inr False, w\<lparr>authStatus := notAuthenticated\<rparr>)"
    using assms(2,3) by (simp add: run_checkAuthStatus_def k w1 check_pipe_def)
  then show ?thesis using req assms(1) by simp
qed

theorem checkAuthStatus_verification_fails_witness:
  "getItem ''token'' (localStorage \<lparr>currentUser = Some (1::nat), authStatus = authenticated,
       localStorage = [''token'' \<mapsto> ''tok1'']\<rparr>) = Some ''tok1''
   \<and> checkAuthStatus ''http://api'' \<lparr>currentUser = Some (1::nat), authStatus = authenticated,
       localStorage = [''token'' \<mapsto> ''tok1'']\<rparr>
      = (HttpPipe (GET ''http://api/auth/check-token'' [(''Authorization'', ''Bearer tok1'')]) check_pipe,
         \<lparr>currentUser = Some 1, authStatus = authenticated, localStorage = [''token'' \<mapsto> ''tok1'']\<rparr>)
   \<and> stub_fail Nullish (GET ''http://api/auth/check-token'' [(''Authorization'', ''Bearer tok1'')])
      = (Inl \<lparr>error = Nullish\<rparr> :: nat http_result)
   \<and> run_checkAuthStatus (stub_fail Nullish) ''http://api''
        \<lparr>currentUser = Some (1::nat), authStatus = authenticated, localStorage = [''token'' \<mapsto> ''tok1'']\<rparr>
      = (Inr False,
         \<lparr>currentUser = Some 1, authStatus = notAuthenticated, localStorage = [''token'' \<mapsto> ''tok1'']\<rparr>)"
  using checkAuthStatus_verification_fails
    [of "\<lparr>currentUser = Some (1::nat), authStatus = authenticated, localStorage = [''token'' \<mapsto> ''tok1'']\<rparr>"
        "''tok1''" "''http://api''"
        "GET ''http://api/auth/check-token'' [(''Authorization'', ''Bearer tok1'')]" check_pipe
        "\<lparr>currentUser = Some (1::nat), authStatus = authenticated, localStorage = [''token'' \<mapsto> ''tok1'']\<rparr>"
        "stub_fail Nullish" "\<lparr>error = Nullish\<rparr>"]
  by (simp add: getItem_def checkAuthStatus_def stub_fail_def)

text \<open>
  C5. With no token in the store, \<open>checkAuthStatus()\<close> returns \<open>of(false)\<close>, which sends
  no request, so it resolves to \<open>false\<close> whatever the remote service is; the state is the
  one \<open>logout\<close> leaves: no user, \<open>notAuthenticated\<close>, no token.
\<close>

theorem checkAuthStatus_no_token:
  assumes "getItem ''token'' (localStorage w) = None"
  shows "checkAuthStatus baseUrl w = (Of False, logout w)
         \<and> run_checkAuthStatus http baseUrl w = (Inr False, logout w)
         \<and> currentUser (snd (run_checkAuthStatus http baseUrl w)) = None
         \<and> authStatus (snd (run_checkAuthStatus http baseUrl w)) = notAuthenticated
         \<and> getItem ''token'' (localStorage (snd (run_checkAuthStatus http baseUrl w))) = None"
proof -
  have "checkAuthStatus baseUrl w = (Of False, logout w)"
    using assms by (simp add: checkAuthStatus_falsy)
  then show ?thesis
    by (simp add: run_checkAuthStatus_def logout_eq getItem_def)
qed

theorem checkAuthStatus_no_token_witness:
  "getItem ''token'' (localStorage (init Map.empty :: nat world)) = None
   \<and> checkAuthStatus ''http://api'' (init Map.empty :: nat world)
       = (Of False, \<lparr>currentUser = None, authStatus = notAuthenticated, localStorage = Map.empty\<rparr>)
   \<and> run_checkAuthStatus (stub_ok (1::nat) ''tok1'') ''http://api'' (init Map.empty)
       = (Inr False, \<lparr>currentUser = None, authStatus = notAuthenticated, localStorage = Map.empty\<rparr>)"
proof -
  have h: "getItem ''token'' (localStorage (init Map.empty :: nat world)) = None"
    by (simp add: getItem_def init_def)
  have l: "logout (init Map.empty :: nat world)
           = \<lparr>currentUser = None, authStatus = notAuthenticated, localStorage = Map.empty\<rparr>"
    by (simp add: logout_eq init_def)
  from h l checkAuthStatus_no_token [OF h, of "''http://api''" "stub_ok (1::nat) ''tok1''"]
  show ?thesis by simp
qed

text \<open>
  C9. A \<open>checkAuthStatus\<close> call that finds a token and whose verification request is
  answered with \<open>(user, token)\<close> ends exactly as a login answered with the same pair from
  the same state: resolved to \<open>true\<close>, that user, \<open>authenticated\<close>, that token stored.
\<close>

theorem checkAuthStatus_success_as_login:
  assumes "getItem ''token'' (localStorage w) = Some t"
      and "checkAuthStatus baseUrl w = (HttpPipe req k, w1)"
      and "http req = Inr resp"
      and "http' (POST (baseUrl @ ''/auth/login'') [(''email'', email), (''password'', password)]) = Inr resp"
  shows "run_checkAuthStatus http baseUrl w = run_login http' baseUrl email password w
         \<and> run_checkAuthStatus http baseUrl w
             = (Inr True, w\<lparr>currentUser := Some (user resp), authStatus := authenticated,
                            localStorage := (localStorage w)(''token'' \<mapsto> token resp)\<rparr>)"
proof -
  from checkAuthStatus_pipeD [OF assms(2)]
  have k: "k = check_pipe" and w1: "w1 = w" by simp_all
  have c: "run_checkAuthStatus http baseUrl w
             = (Inr True, snd (setAuthentication (user resp) (token resp) w))"
    using assms(2,3) by (simp add: run_checkAuthStatus_def k w1 check_pipe_def setAuthentication_eq)
  have l: "run_login http' baseUrl email password w
             = (Inr True, snd (setAuthentication (user resp) (token resp) w))"
    using assms(4) run_login_ok [of http' baseUrl email password resp w] by simp
  from c l show ?thesis by (simp add: setAuthentication_eq)
qed

theorem checkAuthStatus_success_as_login_witness:
  "getItem ''token'' (localStorage \<lparr>currentUser = (None :: nat option), authStatus = checking,
       localStorage = [''token'' \<mapsto> ''tok1'']\<rparr>) = Some ''tok1''
   \<and> checkAuthStatus ''http://api''
        \<lparr>currentUser = (None :: nat option), authStatus = checking, localStorage = [''token'' \<mapsto> ''tok1'']\<rparr>
      = (HttpPipe (GET ''http://api/auth/check-token'' [(''Authorization'', ''Bearer tok1'')]) check_pipe,
         \<lparr>currentUser = None, authStatus = checking, localStorage = [''token'' \<mapsto> ''tok1'']\<rparr>)
   \<and> stub_ok (1::nat) ''tok2'' (GET ''http://api/auth/check-token'' [(''Authorization'', ''Bearer tok1'')])
      = Inr \<lparr>user = 1, token = ''tok2''\<rparr>
   \<and> stub_ok (1::nat) ''tok2''
        (POST (''http://api'' @ ''/auth/login'') [(''email'', ''a@b.com''), (''password'', ''secret'')])
      = Inr \<lparr>user = 1, token = ''tok2''\<rparr>
   \<and> run_checkAuthStatus (stub_ok (1::nat) ''tok2'') ''http://api''
        \<lparr>currentUser = None, authStatus = checking, localStorage = [''token'' \<mapsto> ''tok1'']\<rparr>
      = run_login (stub_ok (1::nat) ''tok2'') ''http://api'' ''a@b.com'' ''secret''
        \<lparr>currentUser = None, authStatus = checking, localStorage = [''token'' \<mapsto> ''tok1'']\<rparr>
   \<and> run_checkAuthStatus (stub_ok (1::nat) ''tok2'') ''http://api''
        \<lparr>currentUser = None, authStatus = checking, localStorage = [''token'' \<mapsto> ''tok1'']\<rparr>
      = (Inr True,
         \<lparr>currentUser = Some 1, authStatus = authenticated, localStorage = [''token'' \<mapsto> ''tok2'']\<rparr>)"
proof -
  let ?w = "\<lparr>currentUser = (None :: nat option), authStatus = checking,
              localStorage = [''token'' \<mapsto> ''tok1'']\<rparr>"
  let ?req = "GET ''http://api/auth/check-token'' [(''Authorization'', ''Bearer tok1'')]"
  have h1: "getItem ''token'' (localStorage ?w) = Some ''tok1''"
    by (simp add: getItem_def)
  have h2: "checkAuthStatus ''http://api'' ?w = (HttpPipe ?req check_pipe, ?w)"
    by (simp add: checkAuthStatus_def getItem_def)
  have h3: "stub_ok (1::nat) ''tok2'' ?req = Inr \<lparr>user = 1, token = ''tok2''\<rparr>"
    by (simp add: stub_ok_def)
  have h4: "stub_ok (1::nat) ''tok2''
        (POST (''http://api'' @ ''/auth/login'') [(''email'', ''a@b.com''), (''password'', ''secret'')])
      = Inr \<lparr>user = 1, token = ''tok2''\<rparr>"
    by (simp add: stub_ok_def)
  from checkAuthStatus_success_as_login
    [of ?w "''tok1''" "''http://api''" ?req check_pipe ?w "stub_ok (1::nat) ''tok2''"
        "\<lparr>user = 1, token = ''tok2''\<rparr>" "stub_ok (1::nat) ''tok2''" "''a@b.com''" "''secret''",
     OF h1 h2 h3 h4]
  have "run_checkAuthStatus (stub_ok (1::nat) ''tok2'') ''http://api'' ?w
          = run_login (stub_ok (1::nat) ''tok2'') ''http://api'' ''a@b.com'' ''secret'' ?w
        \<and> run_checkAuthStatus (stub_ok (1::nat) ''tok2'') ''http://api'' ?w
          = (Inr True, \<lparr>currentUser = Some 1, authStatus = authenticated,
                         localStorage = [''token'' \<mapsto> ''tok2'']\<rparr>)"
    by auto
  with h1 h2 h3 h4 show ?thesis by blast
qed

section \<open>Logout\<close>

text \<open>
  C6. For every starting state, after \<open>logout()\<close> the current user is null, the
  authentication status is \<open>notAuthenticated\<close>, and the token store holds no token.
\<close>

theorem logout_end_state:
  "currentUser (logout w) = None \<and> authStatus (logout w) = notAuthenticated
     \<and> getItem ''token'' (localStorage (logout w)) = None"
  by (simp add: logout_def removeItem_def getItem_def)

text \<open>
  C7. \<open>logout\<close> is idempotent: applying it twice in succession yields the same state
  (user, status and token store) as applying it once.
\<close>

theorem logout_idempotent: "logout (logout w) = logout w"
  by (simp add: logout_def removeItem_def)

section \<open>The invariant and the status machine\<close>

text \<open>
  C1 as stated says that \<open>currentUser\<close> is non-null exactly when \<open>authStatus\<close> is
  \<open>authenticated\<close> after every completed operation, also after a \<open>checkAuthStatus\<close> whose
  verification fails. Construct the service on an empty storage and log in: the invariant
  holds. Then a status check whose verification fails sets the status to
  \<open>notAuthenticated\<close> and keeps the user: the invariant is broken.
\<close>

theorem invariant_counterexample:
  "invariant (complete (stub_ok (1::nat) ''tok1'') ''http://api'' (Login ''a@b.com'' ''secret'')
                (snd (constructor ''http://api'' Map.empty)))
   \<and> \<not> invariant
        (complete (stub_fail Nullish) ''http://api'' CheckAuthStatus
          (complete (stub_ok (1::nat) ''tok1'') ''http://api'' (Login ''a@b.com'' ''secret'')
            (snd (constructor ''http://api'' Map.empty))))"
  by (simp add: run_login_state run_checkAuthStatus_state constructor_def checkAuthStatus_def init_def getItem_def
        logout_eq setAuthentication_eq stub_ok_def stub_fail_def invariant_def)

text \<open>
  C1, amended. After every operation whose request, if it sends one, is answered without
  error (logout, a successful login, a status check that finds no token or whose
  verification succeeds) \<open>currentUser\<close> is non-null exactly when \<open>authStatus\<close> is
  \<open>authenticated\<close>. A failed login leaves the state as it was. A status check whose
  verification fails changes \<open>authStatus\<close> to \<open>notAuthenticated\<close> and nothing else. After
  every operation, \<open>authStatus = authenticated\<close> implies a non-null \<open>currentUser\<close>,
  provided it did before.
\<close>

theorem invariant_after_operation:
  "(\<not> failed http baseUrl op w \<longrightarrow> invariant (complete http baseUrl op w))
   \<and> (failed http baseUrl (Login email password) w \<longrightarrow>
        complete http baseUrl (Login email password) w = w)
   \<and> (failed http baseUrl CheckAuthStatus w \<longrightarrow>
        complete http baseUrl CheckAuthStatus w = w\<lparr>authStatus := notAuthenticated\<rparr>)
   \<and> ((authStatus w = authenticated \<longrightarrow> currentUser w \<noteq> None) \<longrightarrow>
        authStatus (complete http baseUrl op w) = authenticated \<longrightarrow>
        currentUser (complete http baseUrl op w) \<noteq> None)"
proof -
  have ok: "invariant (complete http baseUrl op w)" if "\<not> failed http baseUrl op w"
  proof (cases op)
    case (Login e p)
    with that show ?thesis
      by (auto simp add: run_login_state failed_login invariant_setAuthentication split: sum.splits)
  next
    case CheckAuthStatus
    with that show ?thesis
      by (auto simp add: run_checkAuthStatus_state failed_check invariant_setAuthentication invariant_logout
            split: sum.splits)
  next
    case Logout
    then show ?thesis by (simp add: invariant_logout)
  qed
  have lf: "complete http baseUrl (Login email password) w = w"
    if "failed http baseUrl (Login email password) w"
    using that by (auto simp add: run_login_state failed_login split: sum.splits)
  have cf: "complete http baseUrl CheckAuthStatus w = w\<lparr>authStatus := notAuthenticated\<rparr>"
    if "failed http baseUrl CheckAuthStatus w"
    using that by (auto simp add: run_checkAuthStatus_state failed_check split: sum.splits)
  have weak: "currentUser (complete http baseUrl op w) \<noteq> None"
    if pre: "authStatus w = authenticated \<longrightarrow> currentUser w \<noteq> None"
      and post: "authStatus (complete http baseUrl op w) = authenticated"
  proof (cases "failed http baseUrl op w")
    case False
    from ok [OF False] post show ?thesis by (simp add: invariant_def)
  next
    case True
    show ?thesis
    proof (cases op)
      case (Login e p)
      with True have "complete http baseUrl op w = w"
        by (auto simp add: run_login_state failed_login split: sum.splits)
      with pre post show ?thesis by simp
    next
      case CheckAuthStatus
      with True cf have "authStatus (complete http baseUrl op w) = notAuthenticated" by simp
      with post show ?thesis by simp
    next
      case Logout
      with True show ?thesis by simp
    qed
  qed
  from ok lf cf weak show ?thesis by blast
qed

theorem invariant_after_operation_witness:
  "\<not> failed (stub_fail Nullish) ''http://api'' Logout
       \<lparr>currentUser = Some (1::nat), authStatus = authenticated, localStorage = [''token'' \<mapsto> ''tok1'']\<rparr>
   \<and> failed (stub_fail Nullish) ''http://api'' (Login ''a@b.com'' ''wrong'')
       \<lparr>currentUser = Some (1::nat), authStatus = authenticated, localStorage = [''token'' \<mapsto> ''tok1'']\<rparr>
   \<and> failed (stub_fail Nullish) ''http://api'' CheckAuthStatus
       \<lparr>currentUser = Some (1::nat), authStatus = authenticated, localStorage = [''token'' \<mapsto> ''tok1'']\<rparr>
   \<and> invariant (complete (stub_fail Nullish) ''http://api'' Logout
       \<lparr>currentUser = Some (1::nat), authStatus = authenticated, localStorage = [''token'' \<mapsto> ''tok1'']\<rparr>)
   \<and> complete (stub_fail Nullish) ''http://api'' (Login ''a@b.com'' ''wrong'')
       \<lparr>currentUser = Some (1::nat), authStatus = authenticated, localStorage = [''token'' \<mapsto> ''tok1'']\<rparr>
      = \<lparr>currentUser = Some 1, authStatus = authenticated, localStorage = [''token'' \<mapsto> ''tok1'']\<rparr>
   \<and> complete (stub_fail Nullish) ''http://api'' CheckAuthStatus
       \<lparr>currentUser = Some (1::nat), authStatus = authenticated, localStorage = [''token'' \<mapsto> ''tok1'']\<rparr>
      = \<lparr>currentUser = Some 1, authStatus = notAuthenticated, localStorage = [''token'' \<mapsto> ''tok1'']\<rparr>
   \<and> authStatus (complete (stub_ok (2::nat) ''tok2'') ''http://api'' (Login ''c@d.com'' ''secret'')
       \<lparr>currentUser = Some (1::nat), authStatus = authenticated, localStorage = [''token'' \<mapsto> ''tok1'']\<rparr>)
      = authenticated
   \<and> currentUser (complete (stub_ok (2::nat) ''tok2'') ''http://api'' (Login ''c@d.com'' ''secret'')
       \<lparr>currentUser = Some (1::nat), authStatus = authenticated, localStorage = [''token'' \<mapsto> ''tok1'']\<rparr>)
      \<noteq> None"
proof -
  let ?w = "\<lparr>currentUser = Some (1::nat), authStatus = authenticated,
              localStorage = [''token'' \<mapsto> ''tok1'']\<rparr>"
  have h1: "\<not> failed (stub_fail Nullish) ''http://api'' Logout ?w" by simp
  have h2: "failed (stub_fail Nullish) ''http://api'' (Login ''a@b.com'' ''wrong'') ?w"
    by (simp add: failed_login stub_fail_def)
  have h3: "failed (stub_fail Nullish) ''http://api'' CheckAuthStatus ?w"
    by (simp add: failed_check getItem_def stub_fail_def)
  have h4: "authStatus ?w = authenticated \<longrightarrow> currentUser ?w \<noteq> None" by simp
  have h5: "authStatus (complete (stub_ok (2::nat) ''tok2'') ''http://api''
              (Login ''c@d.com'' ''secret'') ?w) = authenticated"
    by (simp add: run_login_state stub_ok_def setAuthentication_eq)
  from h1 h2 h3
    invariant_after_operation [of "stub_fail Nullish" "''http://api''" Logout ?w "''a@b.com''" "''wrong''"]
  have a: "invariant (complete (stub_fail Nullish) ''http://api'' Logout ?w)
     \<and> complete (stub_fail Nullish) ''http://api'' (Login ''a@b.com'' ''wrong'') ?w = ?w
     \<and> complete (stub_fail Nullish) ''http://api'' CheckAuthStatus ?w
         = \<lparr>currentUser = Some 1, authStatus = notAuthenticated, localStorage = [''token'' \<mapsto> ''tok1'']\<rparr>"
    by simp
  from h4 h5
    invariant_after_operation [of "stub_ok (2::nat) ''tok2''" "''http://api''"
      "Login ''c@d.com'' ''secret''" ?w "''c@d.com''" "''secret''"]
  have b: "currentUser (complete (stub_ok (2::nat) ''tok2'') ''http://api''
              (Login ''c@d.com'' ''secret'') ?w) \<noteq> None"
    by blast
  from h1 h2 h3 h5 a b show ?thesis by simp
qed

text \<open>
  C8 as stated says that every completed login, status check or logout after construction
  ends in \<open>authenticated\<close> or \<open>notAuthenticated\<close>. The constructor does not await its
  status check: with a token stored it returns in status \<open>checking\<close>, the request in
  flight. A login that fails in that state leaves the status alone, so it completes in
  \<open>checking\<close>.
\<close>

theorem never_checking_counterexample:
  "authStatus (snd (constructor ''http://api'' [''token'' \<mapsto> ''tok1'']) :: nat world) = checking
   \<and> authStatus (complete (stub_fail (Payload (Some ''Invalid credentials''))) ''http://api''
                   (Login ''a@b.com'' ''wrong'')
                   (snd (constructor ''http://api'' [''token'' \<mapsto> ''tok1'']) :: nat world)) = checking"
  by (simp add: run_login_state constructor_def checkAuthStatus_def init_def getItem_def stub_fail_def)

text \<open>
  C8, amended. No operation sets \<open>authStatus\<close> to \<open>checking\<close>: a status other than
  \<open>checking\<close> never becomes \<open>checking\<close>. Every operation whose request, if it sends
  one, is answered without error, and every status check, ends in \<open>authenticated\<close> or
  \<open>notAuthenticated\<close>. A failed login leaves \<open>authStatus\<close> as it was, which is
  \<open>checking\<close> when it fails before the constructor's status check is answered.
\<close>

theorem never_back_to_checking:
  "(\<not> failed http baseUrl op w \<longrightarrow>
      authStatus (complete http baseUrl op w) = authenticated
      \<or> authStatus (complete http baseUrl op w) = notAuthenticated)
   \<and> (authStatus (complete http baseUrl CheckAuthStatus w) = authenticated
      \<or> authStatus (complete http baseUrl CheckAuthStatus w) = notAuthenticated)
   \<and> (failed http baseUrl (Login email password) w \<longrightarrow>
        authStatus (complete http baseUrl (Login email password) w) = authStatus w)
   \<and> (authStatus w \<noteq> checking \<longrightarrow> authStatus (complete http baseUrl op w) \<noteq> checking)"
proof -
  have chk: "authStatus (complete http baseUrl CheckAuthStatus w) = authenticated
      \<or> authStatus (complete http baseUrl CheckAuthStatus w) = notAuthenticated"
    by (simp add: run_checkAuthStatus_state logout_eq setAuthentication_eq split: sum.splits)
  have lf: "authStatus (complete http baseUrl (Login e p) w) = authStatus w"
    if "failed http baseUrl (Login e p) w" for e p
    using that by (auto simp add: run_login_state failed_login split: sum.splits)
  have ok: "authStatus (complete http baseUrl op w) = authenticated
      \<or> authStatus (complete http baseUrl op w) = notAuthenticated"
    if "\<not> failed http baseUrl op w"
  proof (cases op)
    case (Login e p)
    with that show ?thesis
      by (auto simp add: run_login_state failed_login setAuthentication_eq split: sum.splits)
  next
    case CheckAuthStatus
    with chk show ?thesis by simp
  next
    case Logout
    then show ?thesis by (simp add: logout_eq)
  qed
  have keep: "authStatus (complete http baseUrl op w) \<noteq> checking" if "authStatus w \<noteq> checking"
  proof (cases "failed http baseUrl op w")
    case False
    from ok [OF False] show ?thesis by auto
  next
    case True
    show ?thesis
    proof (cases op)
      case (Login e p)
      with True lf [of e p] that show ?thesis by simp
    next
      case CheckAuthStatus
      with chk show ?thesis by auto
    next
      case Logout
      with True show ?thesis by simp
    qed
  qed
  from chk lf ok keep show ?thesis by blast
qed

theorem never_back_to_checking_witness:
  "\<not> failed (stub_fail Nullish) ''http://api'' Logout
       \<lparr>currentUser = Some (1::nat), authStatus = authenticated, localStorage = [''token'' \<mapsto> ''tok1'']\<rparr>
   \<and> failed (stub_fail Nullish) ''http://api'' (Login ''a@b.com'' ''wrong'')
       \<lparr>currentUser = Some (1::nat), authStatus = authenticated, localStorage = [''token'' \<mapsto> ''tok1'']\<rparr>
   \<and> authStatus \<lparr>currentUser = Some (1::nat), authStatus = authenticated,
                   localStorage = [''token'' \<mapsto> ''tok1'']\<rparr> \<noteq> checking
   \<and> authStatus (complete (stub_fail Nullish) ''http://api'' Logout
       \<lparr>currentUser = Some (1::nat), authStatus = authenticated, localStorage = [''token'' \<mapsto> ''tok1'']\<rparr>)
      = notAuthenticated
   \<and> authStatus (complete (stub_fail Nullish) ''http://api'' (Login ''a@b.com'' ''wrong'')
       \<lparr>currentUser = Some (1::nat), authStatus = authenticated, localStorage = [''token'' \<mapsto> ''tok1'']\<rparr>)
      = authenticated"
proof -
  let ?w = "\<lparr>currentUser = Some (1::nat), authStatus = authenticated,
              localStorage = [''token'' \<mapsto> ''tok1'']\<rparr>"
  have h1: "\<not> failed (stub_fail Nullish) ''http://api'' Logout ?w" by simp
  have h2: "failed (stub_fail Nullish) ''http://api'' (Login ''a@b.com'' ''wrong'') ?w"
    by (simp add: failed_login stub_fail_def)
  have l: "complete (stub_fail Nullish) ''http://api'' Logout ?w
             = \<lparr>currentUser = None, authStatus = notAuthenticated, localStorage = Map.empty\<rparr>"
    by (simp add: logout_eq)
  from h1 h2 l
    never_back_to_checking [of "stub_fail Nullish" "''http://api''" Logout ?w "''a@b.com''" "''wrong''"]
  show ?thesis by simp
qed

end
